theory Spec2Isabelle
  imports Main "HOL-Library.Multiset"
begin

section \<open>Data model of the quiz backend\<close>

text \<open>
  The documents of \<^verbatim>\<open>src/handlers/quizzesHandlers.js\<close>, typed as the request examples in
  the handler comments give them. Every JavaScript number that occurs (scores, counters,
  ranks) is an integer far below \<open>2^53\<close>, where the arithmetic of doubles is exact, so
  numbers are \<^typ>\<open>int\<close>. Identifiers are strings compared with \<^verbatim>\<open>===\<close>.
  The field \<^verbatim>\<open>questionId\<close> exists on questions and on answers; the answer's field is
  \<open>answer_questionId\<close>. An option's \<^verbatim>\<open>id\<close> and \<^verbatim>\<open>text\<close> are \<open>option_id\<close> and
  \<open>option_text\<close>.
\<close>

record quiz_option =
  option_id :: string
  option_text :: string
  isCorrect :: bool

record question =
  questionId :: string
  question_text :: string
  question_type :: string
  options :: "quiz_option list"

record quiz =
  title :: string
  description :: string
  questions :: "question list"
  createdAt :: nat

record answer =
  answer_questionId :: string
  selectedOptionId :: string

text \<open>An element of a user's \<^verbatim>\<open>quizzesTaken\<close> array, as \<^verbatim>\<open>submitQuizAnswers\<close> writes it.\<close>

record history_entry =
  quizId :: string
  score :: int
  completedAt :: nat

text \<open>
  A user document. Only the field \<^verbatim>\<open>quizzesTaken\<close> is read or written by these
  handlers; it is absent (\<open>None\<close>) until something writes it.
\<close>

record user_doc =
  doc_quizzesTaken :: "history_entry list option"

text \<open>A document of the \<^verbatim>\<open>results\<close> collection.\<close>

record submission =
  submission_quizId :: string
  submission_userId :: string
  submission_answers :: "answer list"
  submission_score :: int
  submittedAt :: nat

text \<open>
  The store: \<^verbatim>\<open>quizzes\<close> is read by document id only; \<^verbatim>\<open>users\<close> is scanned, so it is
  the list of (document id, data) in the order the scan returns; \<^verbatim>\<open>results\<close> only grows.
\<close>

record db =
  quizzes :: "string \<rightharpoonup> quiz"
  users :: "(string \<times> user_doc) list"
  results :: "submission list"

text \<open>
  The values stored in \<^verbatim>\<open>userScores\<close>, the objects of \<^verbatim>\<open>leaderboard\<close>
  (\<^verbatim>\<open>{userId, totalScore, quizzesTaken}\<close>) and those of \<^verbatim>\<open>indexedLeaderboard\<close>
  (\<^verbatim>\<open>{rank, ...user}\<close>).
\<close>

record user_score =
  totalScore :: int
  quizzesTaken :: int

record leaderboard_user = user_score +
  userId :: string

record leaderboard_row = leaderboard_user +
  rank :: int

datatype body =
    Text string
  | Message string
  | QuizData quiz
  | SubmitResult string int
  | Leaderboard "leaderboard_row list"

record response =
  status :: nat
  body :: body

text \<open>What a handler's \<^verbatim>\<open>try\<close> block can throw in the modelled paths.\<close>

datatype error = TypeError | NotFound

section \<open>Scoring\<close>

text \<open>
  The body of \<^verbatim>\<open>answers.forEach\<close> in \<^verbatim>\<open>calculateScore\<close>, as a function of the current
  value of \<^verbatim>\<open>score\<close>. \<^verbatim>\<open>Array.prototype.find\<close> returns the first element satisfying the
  predicate or \<^verbatim>\<open>undefined\<close>, which is \<^const>\<open>List.find\<close>.
\<close>

definition score_answer :: "question list \<Rightarrow> int \<Rightarrow> answer \<Rightarrow> int" where
  "score_answer qs sc a =
     (case List.find (\<lambda>q. questionId q = answer_questionId a) qs of
        None \<Rightarrow> sc
      | Some q \<Rightarrow>
          (case List.find (\<lambda>opt. isCorrect opt) (options q) of
             None \<Rightarrow> sc
           | Some correctOption \<Rightarrow>
               if option_id correctOption = selectedOptionId a then sc + 1 else sc))"

text \<open>The \<^verbatim>\<open>forEach\<close> loop over the answers, threading \<^verbatim>\<open>score\<close>.\<close>

fun forEach_answer :: "question list \<Rightarrow> answer list \<Rightarrow> int \<Rightarrow> int" where
  "forEach_answer qs [] sc = sc"
| "forEach_answer qs (a # as) sc = forEach_answer qs as (score_answer qs sc a)"

text \<open>
  \<^verbatim>\<open>calculateScore(answers, quizId)\<close>. For a document that does not exist
  \<^verbatim>\<open>quizDoc.data()\<close> is \<^verbatim>\<open>undefined\<close>, and reading \<^verbatim>\<open>.questions\<close> of it throws a
  TypeError.
\<close>

definition calculateScore :: "db \<Rightarrow> answer list \<Rightarrow> string \<Rightarrow> error + int" where
  "calculateScore d answers qid =
     (case quizzes d qid of
        None \<Rightarrow> Inl TypeError
      | Some quizDoc \<Rightarrow> Inr (forEach_answer (questions quizDoc) answers 0))"

subsection \<open>The scoring rule in the specification's words\<close>

text \<open>
  Points of one answer as the specification words it: the question with the matching
  \<^verbatim>\<open>questionId\<close>, if there is one; the option flagged \<^verbatim>\<open>isCorrect\<close> among its options;
  one point if the selected id is that option's id.
\<close>

definition spec_points :: "question list \<Rightarrow> answer \<Rightarrow> int" where
  "spec_points qs a =
     (case filter (\<lambda>q. questionId q = answer_questionId a) qs of
        [] \<Rightarrow> 0
      | q # _ \<Rightarrow>
          (case filter isCorrect (options q) of
             [] \<Rightarrow> 0
           | c # _ \<Rightarrow> if selectedOptionId a = option_id c then 1 else 0))"

definition spec_score :: "question list \<Rightarrow> answer list \<Rightarrow> int" where
  "spec_score qs answers = sum_list (map (spec_points qs) answers)"

section \<open>Submitting answers\<close>

text \<open>
  \<^verbatim>\<open>FieldValue.arrayUnion(x)\<close> applied to a field: an absent field becomes \<^verbatim>\<open>[x]\<close>; an
  array gets \<^verbatim>\<open>x\<close> appended unless an equal element is already in it.
\<close>

definition arrayUnion :: "'a list option \<Rightarrow> 'a \<Rightarrow> 'a list option" where
  "arrayUnion field x =
     (case field of
        None \<Rightarrow> Some [x]
      | Some xs \<Rightarrow> Some (if x \<in> set xs then xs else xs @ [x]))"

text \<open>
  \<^verbatim>\<open>userRef.update({quizzesTaken: arrayUnion(entry)})\<close>: \<^verbatim>\<open>update\<close> rejects when the
  document does not exist.
\<close>

definition update_user :: "(string \<times> user_doc) list \<Rightarrow> string \<Rightarrow> history_entry
    \<Rightarrow> error + (string \<times> user_doc) list" where
  "update_user us uid entry =
     (case map_of us uid of
        None \<Rightarrow> Inl NotFound
      | Some _ \<Rightarrow>
          Inr (map (\<lambda>(k, u). if k = uid
                 then (k, u\<lparr>doc_quizzesTaken := arrayUnion (doc_quizzesTaken u) entry\<rparr>)
                 else (k, u)) us))"

definition internal_server_error :: response where
  "internal_server_error = \<lparr>status = 500, body = Text ''Internal Server Error''\<rparr>"

text \<open>
  \<^verbatim>\<open>submitQuizAnswers\<close>, with the two readings of the clock (\<^verbatim>\<open>submittedAt\<close>,
  \<^verbatim>\<open>completedAt\<close>) as arguments. Whatever the \<^verbatim>\<open>try\<close> block throws is answered by the
  \<^verbatim>\<open>catch\<close> with status 500; writes made before the throw stay in the store.
\<close>

definition submitQuizAnswers :: "db \<Rightarrow> string \<Rightarrow> string \<Rightarrow> answer list \<Rightarrow> nat \<Rightarrow> nat
    \<Rightarrow> response \<times> db" where
  "submitQuizAnswers d qid uid answers t_submitted t_completed =
     (case calculateScore d answers qid of
        Inl _ \<Rightarrow> (internal_server_error, d)
      | Inr sc \<Rightarrow>
          (let d1 = d\<lparr>results := results d @
                      [\<lparr>submission_quizId = qid, submission_userId = uid,
                        submission_answers = answers, submission_score = sc,
                        submittedAt = t_submitted\<rparr>]\<rparr>
           in case update_user (users d1) uid
                     \<lparr>quizId = qid, score = sc, completedAt = t_completed\<rparr> of
                Inl _ \<Rightarrow> (internal_server_error, d1)
              | Inr us \<Rightarrow>
                  (\<lparr>status = 200,
                    body = SubmitResult ''Quiz answers submitted successfully'' sc\<rparr>,
                   d1\<lparr>users := us\<rparr>)))"

text \<open>\<^verbatim>\<open>getQuizById\<close>, the sibling handler that checks \<^verbatim>\<open>quizDoc.exists\<close>.\<close>

definition getQuizById :: "db \<Rightarrow> string \<Rightarrow> response \<times> db" where
  "getQuizById d qid =
     (case quizzes d qid of
        None \<Rightarrow> (\<lparr>status = 404, body = Message ''Quiz not found''\<rparr>, d)
      | Some quizDoc \<Rightarrow> (\<lparr>status = 200, body = QuizData quizDoc\<rparr>, d))"

section \<open>Leaderboard\<close>

text \<open>
  \<^verbatim>\<open>userScores\<close> is an ordinary object created by \<^verbatim>\<open>{}\<close>: its own properties, in
  creation order, are an association list; on top of them a property read sees what
  \<^verbatim>\<open>Object.prototype\<close> provides. These are the property names of \<^verbatim>\<open>Object.prototype\<close>;
  each holds a function or an object, hence a truthy value.
\<close>

definition Object_prototype_keys :: "string list" where
  "Object_prototype_keys =
     [''constructor'', ''__defineGetter__'', ''__defineSetter__'', ''hasOwnProperty'',
      ''__lookupGetter__'', ''__lookupSetter__'', ''isPrototypeOf'',
      ''propertyIsEnumerable'', ''toString'', ''valueOf'', ''__proto__'',
      ''toLocaleString'']"

text \<open>
  Truthiness of \<^verbatim>\<open>userScores[userId]\<close>: an own property holds an object; an inherited one
  is truthy as well; anything else reads \<^verbatim>\<open>undefined\<close>.
\<close>

definition has_property :: "(string \<times> 'a) list \<Rightarrow> string \<Rightarrow> bool" where
  "has_property obj k = (k \<in> set (map fst obj) \<or> k \<in> set Object_prototype_keys)"

text \<open>
  The body of the inner \<^verbatim>\<open>quizzesTaken.forEach\<close>: both additions go to the object that
  \<^verbatim>\<open>userScores[userId]\<close> reads. When that is an own property the property's value
  changes; when it is inherited, the additions land on the inherited function object and
  no own property of \<^verbatim>\<open>userScores\<close> changes.
\<close>

definition add_quiz :: "string \<Rightarrow> (string \<times> user_score) list \<Rightarrow> history_entry
    \<Rightarrow> (string \<times> user_score) list" where
  "add_quiz uid userScores qz =
     map (\<lambda>(k, s). if k = uid
            then (k, s\<lparr>totalScore := totalScore s + score qz,
                       quizzesTaken := quizzesTaken s + 1\<rparr>)
            else (k, s)) userScores"

text \<open>The body of \<^verbatim>\<open>usersSnapshot.docs.forEach\<close>.\<close>

definition aggregate_doc :: "(string \<times> user_score) list \<Rightarrow> string \<times> user_doc
    \<Rightarrow> (string \<times> user_score) list" where
  "aggregate_doc userScores doc =
     (case doc_quizzesTaken (snd doc) of
        None \<Rightarrow> userScores
      | Some qt \<Rightarrow>
          if length qt > 0 then
            (let uid = fst doc;
                 userScores1 =
                   (if \<not> has_property userScores uid
                    then userScores @ [(uid, \<lparr>totalScore = 0, quizzesTaken = 0\<rparr>)]
                    else userScores)
             in foldl (add_quiz uid) userScores1 qt)
          else userScores)"

text \<open>
  \<^verbatim>\<open>Object.keys\<close> lists the own property names that are array indices (canonical decimal
  numerals below \<open>2^32 - 1\<close>) first, in ascending numeric order, and then the other
  names in creation order.
\<close>

definition is_digit :: "char \<Rightarrow> bool" where
  "is_digit c = (48 \<le> (of_char c :: nat) \<and> (of_char c :: nat) \<le> 57)"

definition decimal_value :: "string \<Rightarrow> nat" where
  "decimal_value s = foldl (\<lambda>n c. 10 * n + (of_char c - 48)) 0 s"

definition is_array_index :: "string \<Rightarrow> bool" where
  "is_array_index s =
     (s \<noteq> [] \<and> list_all is_digit s \<and> (s = ''0'' \<or> hd s \<noteq> CHR ''0'') \<and>
      decimal_value s < 2 ^ 32 - 1)"

text \<open>The own properties in the order in which \<^verbatim>\<open>Object.keys\<close> lists their names.\<close>

definition Object_entries :: "(string \<times> 'a) list \<Rightarrow> (string \<times> 'a) list" where
  "Object_entries obj =
     sort_key (\<lambda>p. decimal_value (fst p)) (filter (\<lambda>p. is_array_index (fst p)) obj) @
     filter (\<lambda>p. \<not> is_array_index (fst p)) obj"

definition Object_keys :: "(string \<times> 'a) list \<Rightarrow> string list" where
  "Object_keys obj = map fst (Object_entries obj)"

text \<open>
  \<^verbatim>\<open>Array.prototype.sort\<close> with a comparator is a stable sort: \<^verbatim>\<open>a\<close> stays before \<^verbatim>\<open>b\<close>
  unless the comparator is positive on them. Insertion from the right gives that order.
\<close>

fun insert_sorted :: "('a \<Rightarrow> 'a \<Rightarrow> int) \<Rightarrow> 'a \<Rightarrow> 'a list \<Rightarrow> 'a list" where
  "insert_sorted cmp x [] = [x]"
| "insert_sorted cmp x (y # ys) =
     (if cmp x y \<le> 0 then x # y # ys else y # insert_sorted cmp x ys)"

definition Array_sort :: "('a \<Rightarrow> 'a \<Rightarrow> int) \<Rightarrow> 'a list \<Rightarrow> 'a list" where
  "Array_sort cmp xs = foldr (insert_sorted cmp) xs []"

text \<open>The comparator \<^verbatim>\<open>(a, b) => b.totalScore - a.totalScore\<close>.\<close>

definition by_totalScore_desc :: "leaderboard_user \<Rightarrow> leaderboard_user \<Rightarrow> int" where
  "by_totalScore_desc a b = totalScore b - totalScore a"

text \<open>
  \<^verbatim>\<open>Object.keys(userScores).map(userId => ({userId, totalScore: userScores[userId].totalScore,
  quizzesTaken: userScores[userId].quizzesTaken}))\<close>: each own property is read once, in the
  order of \<^verbatim>\<open>Object.keys\<close>.
\<close>

definition to_leaderboard_user :: "string \<times> user_score \<Rightarrow> leaderboard_user" where
  "to_leaderboard_user p =
     \<lparr>totalScore = totalScore (snd p), quizzesTaken = quizzesTaken (snd p), userId = fst p\<rparr>"

text \<open>\<^verbatim>\<open>leaderboard.map((user, index) => ({rank: index + 1, ...user}))\<close>.\<close>

definition add_rank :: "nat \<times> leaderboard_user \<Rightarrow> leaderboard_row" where
  "add_rank p =
     \<lparr>totalScore = totalScore (snd p), quizzesTaken = quizzesTaken (snd p),
      userId = userId (snd p), rank = int (fst p) + 1\<rparr>"

definition leaderboard_rows :: "(string \<times> user_doc) list \<Rightarrow> leaderboard_row list" where
  "leaderboard_rows docs =
     (let userScores = foldl aggregate_doc [] docs;
          leaderboard = Array_sort by_totalScore_desc
                          (map to_leaderboard_user (Object_entries userScores))
      in map add_rank (List.enumerate 0 leaderboard))"

text \<open>\<^verbatim>\<open>getQuizLeaderboard\<close>: \<^verbatim>\<open>usersSnapshot.empty\<close> holds when the scan returns no document.\<close>

definition getQuizLeaderboard :: "db \<Rightarrow> response \<times> db" where
  "getQuizLeaderboard d =
     (if users d = [] then (\<lparr>status = 404, body = Message ''No users found''\<rparr>, d)
      else (\<lparr>status = 200, body = Leaderboard (leaderboard_rows (users d))\<rparr>, d))"

section \<open>Notions used in the properties\<close>

text \<open>The hypotheses of the score range: one flagged option per question, known questionIds.\<close>

definition one_correct_each :: "question list \<Rightarrow> bool" where
  "one_correct_each qs = list_all (\<lambda>q. length (filter isCorrect (options q)) = 1) qs"

definition valid_questionIds :: "question list \<Rightarrow> answer list \<Rightarrow> bool" where
  "valid_questionIds qs answers =
     list_all (\<lambda>a. answer_questionId a \<in> set (map questionId qs)) answers"

text \<open>
  The condition \<^verbatim>\<open>quizzesTaken && quizzesTaken.length > 0\<close> under which a user document is
  aggregated, and a user document holding a given history.
\<close>

definition has_history :: "user_doc \<Rightarrow> bool" where
  "has_history u = (case doc_quizzesTaken u of None \<Rightarrow> False | Some qt \<Rightarrow> length qt > 0)"

definition history_doc :: "history_entry list \<Rightarrow> user_doc" where
  "history_doc qt = \<lparr>doc_quizzesTaken = Some qt\<rparr>"

text \<open>
  The leaderboard entry that a user document stands for: none without a history, none
  when the document id is a property name of \<^verbatim>\<open>Object.prototype\<close>, otherwise the sum of
  the scores and the number of entries. A row without its rank is such an entry.
\<close>

definition expected_user :: "string \<times> user_doc \<Rightarrow> leaderboard_user list" where
  "expected_user doc =
     (case doc_quizzesTaken (snd doc) of
        None \<Rightarrow> []
      | Some qt \<Rightarrow>
          if qt \<noteq> [] \<and> fst doc \<notin> set Object_prototype_keys
          then [\<lparr>totalScore = sum_list (map score qt), quizzesTaken = int (length qt),
                 userId = fst doc\<rparr>]
          else [])"

definition without_rank :: "leaderboard_row \<Rightarrow> leaderboard_user" where
  "without_rank r =
     \<lparr>totalScore = totalScore r, quizzesTaken = quizzesTaken r, userId = userId r\<rparr>"

section \<open>Example documents\<close>

text \<open>The quiz of the request example above \<^verbatim>\<open>createQuiz\<close>.\<close>

definition example_question :: question where
  "example_question =
     \<lparr>questionId = ''q1'', question_text = ''What is the capital of France?'',
      question_type = ''multiple-choice'',
      options =
        [\<lparr>option_id = ''o1'', option_text = ''Paris'', isCorrect = True\<rparr>,
         \<lparr>option_id = ''o2'', option_text = ''London'', isCorrect = False\<rparr>,
         \<lparr>option_id = ''o3'', option_text = ''Berlin'', isCorrect = False\<rparr>,
         \<lparr>option_id = ''o4'', option_text = ''Madrid'', isCorrect = False\<rparr>]\<rparr>"

definition example_quiz :: quiz where
  "example_quiz =
     \<lparr>title = ''General Knowledge Quiz'',
      description = ''A fun quiz to test your knowledge.'',
      questions = [example_question], createdAt = 0\<rparr>"

definition example_db :: db where
  "example_db =
     \<lparr>quizzes = [''quiz1'' \<mapsto> example_quiz],
      users = [(''user123'', \<lparr>doc_quizzesTaken = None\<rparr>)],
      results = []\<rparr>"

definition answer_o1 :: answer where
  "answer_o1 = \<lparr>answer_questionId = ''q1'', selectedOptionId = ''o1''\<rparr>"

definition answer_o2 :: answer where
  "answer_o2 = \<lparr>answer_questionId = ''q1'', selectedOptionId = ''o2''\<rparr>"

text \<open>A question with two flagged options, and one with none.\<close>

definition two_correct_question :: question where
  "two_correct_question =
     \<lparr>questionId = ''q2'', question_text = ''Name a prime number.'',
      question_type = ''multiple-choice'',
      options =
        [\<lparr>option_id = ''o1'', option_text = ''4'', isCorrect = False\<rparr>,
         \<lparr>option_id = ''o2'', option_text = ''5'', isCorrect = True\<rparr>,
         \<lparr>option_id = ''o3'', option_text = ''7'', isCorrect = True\<rparr>]\<rparr>"

definition unscorable_question :: question where
  "unscorable_question =
     \<lparr>questionId = ''q3'', question_text = ''Pick any.'',
      question_type = ''multiple-choice'',
      options =
        [\<lparr>option_id = ''o1'', option_text = ''a'', isCorrect = False\<rparr>,
         \<lparr>option_id = ''o2'', option_text = ''b'', isCorrect = False\<rparr>]\<rparr>"

definition example_db2 :: db where
  "example_db2 =
     \<lparr>quizzes =
        [''quiz2'' \<mapsto>
           example_quiz\<lparr>questions :=
             [example_question, two_correct_question, unscorable_question]\<rparr>],
      users = [], results = []\<rparr>"

text \<open>Stores for the leaderboard: two users with histories, no user, a user named \<open>constructor\<close>.\<close>

definition leaderboard_db :: db where
  "leaderboard_db =
     \<lparr>quizzes = [''quiz1'' \<mapsto> example_quiz],
      users =
        [(''A'', history_doc [\<lparr>quizId = ''quiz1'', score = 4, completedAt = 1\<rparr>,
                              \<lparr>quizId = ''quiz2'', score = 6, completedAt = 2\<rparr>]),
         (''B'', history_doc [\<lparr>quizId = ''quiz1'', score = 15, completedAt = 3\<rparr>])],
      results = []\<rparr>"

definition empty_db :: db where
  "empty_db = \<lparr>quizzes = Map.empty, users = [], results = []\<rparr>"

definition constructor_db :: db where
  "constructor_db =
     \<lparr>quizzes = [''quiz1'' \<mapsto> example_quiz],
      users = [(''constructor'',
                history_doc [\<lparr>quizId = ''quiz1'', score = 1, completedAt = 2\<rparr>])],
      results = []\<rparr>"

section \<open>Properties of the scoring engine\<close>

lemmas example_defs = example_db_def example_quiz_def example_question_def answer_o1_def
  answer_o2_def two_correct_question_def unscorable_question_def example_db2_def

lemma find_filter_conv:
  "List.find P xs = (case filter P xs of [] \<Rightarrow> None | x # _ \<Rightarrow> Some x)"
  by (induction xs) auto

lemma find_None_list_all: "list_all (\<lambda>x. \<not> P x) xs \<Longrightarrow> List.find P xs = None"
  by (induction xs) simp_all

lemma find_first:
  "list_all (\<lambda>x. \<not> P x) pre \<Longrightarrow> P c \<Longrightarrow> List.find P (pre @ c # post) = Some c"
  by (induction pre) simp_all

lemma score_answer_spec_points: "score_answer qs sc a = sc + spec_points qs a"
  by (simp add: score_answer_def spec_points_def find_filter_conv split: list.splits)

lemma forEach_answer_spec_score:
  "forEach_answer qs answers sc = sc + spec_score qs answers"
  by (induction answers arbitrary: sc)
     (simp_all add: spec_score_def score_answer_spec_points)

lemma spec_score_Cons: "spec_score qs (a # as) = spec_points qs a + spec_score qs as"
  by (simp add: spec_score_def)

lemma spec_score_insert:
  "spec_score qs (xs @ a # ys) = spec_score qs (xs @ ys) + spec_points qs a"
  by (simp add: spec_score_def)

lemma spec_points_range: "0 \<le> spec_points qs a \<and> spec_points qs a \<le> 1"
  by (simp add: spec_points_def split: list.splits)

lemma spec_score_bounds:
  "0 \<le> spec_score qs answers \<and> spec_score qs answers \<le> int (length answers)"
proof (induction answers)
  case Nil
  show ?case by (simp add: spec_score_def)
next
  case (Cons a as)
  from spec_points_range [of qs a] Cons show ?case
    by (simp add: spec_score_Cons)
qed

lemma spec_points_unmatched:
  "answer_questionId a \<notin> set (map questionId qs) \<Longrightarrow> spec_points qs a = 0"
proof -
  assume "answer_questionId a \<notin> set (map questionId qs)"
  then have "filter (\<lambda>q. questionId q = answer_questionId a) qs = []"
    by (force simp: filter_empty_conv)
  then show ?thesis by (simp add: spec_points_def)
qed

lemma spec_points_found:
  "List.find (\<lambda>q'. questionId q' = answer_questionId a) qs = Some q \<Longrightarrow>
   spec_points qs a =
     (case List.find isCorrect (options q) of
        None \<Rightarrow> 0
      | Some c \<Rightarrow> if option_id c = selectedOptionId a then 1 else 0)"
  using score_answer_spec_points [of qs 0 a]
  by (auto simp: score_answer_def split: option.splits)

text \<open>Adding one answer anywhere in the sequence adds that answer's points.\<close>

lemma calculateScore_insert:
  "quizzes d qid = Some qz \<Longrightarrow>
   calculateScore d (xs @ ys) qid = Inr (spec_score (questions qz) (xs @ ys)) \<and>
   calculateScore d (xs @ a # ys) qid =
     Inr (spec_score (questions qz) (xs @ ys) + spec_points (questions qz) a)"
  by (simp add: calculateScore_def forEach_answer_spec_score spec_score_insert)

text \<open>
  Claim C1. For a quiz that exists, the score is computed answer by answer: the question
  with the answer's questionId is looked up; if it is found and has an option flagged
  isCorrect, exactly 1 is added when the selected option id is that option's id, and 0
  otherwise. For a quiz whose only question is \<open>q1\<close> with correct option \<open>o1\<close>, the
  answer \<open>(q1, o1)\<close> scores 1 and the answer \<open>(q1, o2)\<close> scores 0.
\<close>

theorem calculateScore_algorithm:
  "quizzes d qid = Some qz \<Longrightarrow>
     calculateScore d answers qid = Inr (spec_score (questions qz) answers) \<and>
     (questions qz = [q] \<and> questionId q = ''q1'' \<and>
      filter isCorrect (options q) = [c] \<and> option_id c = ''o1'' \<longrightarrow>
        calculateScore d [\<lparr>answer_questionId = ''q1'', selectedOptionId = ''o1''\<rparr>] qid = Inr 1 \<and>
        calculateScore d [\<lparr>answer_questionId = ''q1'', selectedOptionId = ''o2''\<rparr>] qid = Inr 0)"
  by (simp add: calculateScore_def forEach_answer_spec_score spec_score_def spec_points_def)

theorem calculateScore_algorithm_witness:
  "quizzes example_db ''quiz1'' = Some example_quiz \<and>
   calculateScore example_db [answer_o2, answer_o1, answer_o1] ''quiz1'' = Inr 2 \<and>
   calculateScore example_db [answer_o1] ''quiz1'' = Inr 1 \<and>
   calculateScore example_db [answer_o2] ''quiz1'' = Inr 0"
proof -
  have h: "quizzes example_db ''quiz1'' = Some example_quiz"
    by (simp add: example_db_def)
  show ?thesis
    using h calculateScore_algorithm [OF h, of "[answer_o2, answer_o1, answer_o1]" example_question
        "\<lparr>option_id = ''o1'', option_text = ''Paris'', isCorrect = True\<rparr>"]
    by (simp add: example_defs spec_score_def spec_points_def)
qed

text \<open>
  What \<^verbatim>\<open>submitQuizAnswers\<close> answers: 500 with the store untouched when the quiz does not
  exist; 200 with the score when the quiz and the user document exist.
\<close>

lemma submitQuizAnswers_unknown_quiz:
  "quizzes d qid = None \<Longrightarrow>
   submitQuizAnswers d qid uid answers t1 t2 = (internal_server_error, d)"
  by (simp add: submitQuizAnswers_def calculateScore_def)

lemma submitQuizAnswers_known:
  "quizzes d qid = Some qz \<Longrightarrow> map_of (users d) uid = Some u \<Longrightarrow>
   fst (submitQuizAnswers d qid uid answers t1 t2) =
     \<lparr>status = 200,
      body = SubmitResult ''Quiz answers submitted successfully''
               (spec_score (questions qz) answers)\<rparr>"
  by (simp add: submitQuizAnswers_def calculateScore_def forEach_answer_spec_score
        update_user_def Let_def)

text \<open>
  Claim C2. A submission whose quizId names no quiz should be answered with 404, and one
  whose quiz exists with 200, a message and the score. The handler does neither check:
  for the missing quiz \<^verbatim>\<open>calculateScore\<close> throws and the answer is the generic 500, where
  \<^verbatim>\<open>getQuizById\<close> answers 404 on the same store; and an existing quiz with an unknown user
  is answered 500 as well, after the result has been recorded.
\<close>

theorem submitQuizAnswers_missing_quiz:
  "quizzes example_db ''missing'' = None \<and>
   submitQuizAnswers example_db ''missing'' ''user123'' [answer_o1] 1 2 =
     (\<lparr>status = 500, body = Text ''Internal Server Error''\<rparr>, example_db) \<and>
   fst (getQuizById example_db ''missing'') =
     \<lparr>status = 404, body = Message ''Quiz not found''\<rparr> \<and>
   quizzes example_db ''quiz1'' = Some example_quiz \<and>
   fst (submitQuizAnswers example_db ''quiz1'' ''nobody'' [answer_o1] 1 2) =
     \<lparr>status = 500, body = Text ''Internal Server Error''\<rparr>"
  by (simp add: submitQuizAnswers_def calculateScore_def getQuizById_def update_user_def
        internal_server_error_def example_db_def)

text \<open>
  Claim C3, as stated, fails: two answers to the same question are both scored, so one
  question with one correct option yields the score 2.
\<close>

theorem score_range_counterexample:
  "quizzes example_db ''quiz1'' = Some example_quiz \<and>
   one_correct_each (questions example_quiz) \<and>
   valid_questionIds (questions example_quiz) [answer_o1, answer_o1] \<and>
   calculateScore example_db [answer_o1, answer_o1] ''quiz1'' = Inr 2 \<and>
   \<not> (2 \<le> int (length (questions example_quiz)))"
  by (simp add: calculateScore_def score_answer_def one_correct_each_def valid_questionIds_def
        example_defs)

text \<open>
  Claim C3, amended. For every quiz that exists the score is an integer between 0 and the
  number of submitted answers. When every question has exactly one option flagged
  isCorrect, every answer's questionId occurs in the quiz and no two answers carry the
  same questionId, the score is between 0 and the number N of questions.
\<close>

theorem score_range_distinct:
  assumes "quizzes d qid = Some qz"
  shows "\<exists>s. calculateScore d answers qid = Inr s \<and> 0 \<le> s \<and> s \<le> int (length answers) \<and>
           (one_correct_each (questions qz) \<and> valid_questionIds (questions qz) answers \<and>
            distinct (map answer_questionId answers) \<longrightarrow> s \<le> int (length (questions qz)))"
proof -
  let ?qs = "questions qz"
  have eq: "calculateScore d answers qid = Inr (spec_score ?qs answers)"
    using assms by (simp add: calculateScore_def forEach_answer_spec_score)
  have len: "length answers \<le> length ?qs"
    if v: "valid_questionIds ?qs answers" and dist: "distinct (map answer_questionId answers)"
  proof -
    from v have sub: "set (map answer_questionId answers) \<subseteq> set (map questionId ?qs)"
      by (auto simp: valid_questionIds_def list_all_iff)
    have "length answers = card (set (map answer_questionId answers))"
      using dist distinct_card [of "map answer_questionId answers"] by simp
    also have "\<dots> \<le> card (set (map questionId ?qs))"
      using sub by (intro card_mono) simp_all
    also have "\<dots> \<le> length (map questionId ?qs)"
      by (rule card_length)
    finally show ?thesis by simp
  qed
  from spec_score_bounds [of ?qs answers] eq len show ?thesis
    by auto
qed

theorem score_range_distinct_witness:
  "quizzes example_db ''quiz1'' = Some example_quiz \<and>
   one_correct_each (questions example_quiz) \<and>
   valid_questionIds (questions example_quiz) [answer_o1] \<and>
   distinct (map answer_questionId [answer_o1]) \<and>
   (\<exists>s. calculateScore example_db [answer_o1] ''quiz1'' = Inr s \<and> 0 \<le> s \<and>
        s \<le> int (length (questions example_quiz)))"
proof -
  have h: "quizzes example_db ''quiz1'' = Some example_quiz"
    by (simp add: example_db_def)
  have hs: "one_correct_each (questions example_quiz) \<and>
      valid_questionIds (questions example_quiz) [answer_o1] \<and>
      distinct (map answer_questionId [answer_o1])"
    by (simp add: one_correct_each_def valid_questionIds_def example_defs)
  from score_range_distinct [OF h, of "[answer_o1]"] hs h show ?thesis
    by auto
qed

text \<open>
  Claim C4. An answer whose questionId matches no question of the quiz changes nothing:
  the score with it, at any position of the answer sequence, is the score without it,
  and scoring returns a score rather than an error.
\<close>

theorem unmatched_answer_ignored:
  "quizzes d qid = Some qz \<Longrightarrow>
   answer_questionId a \<notin> set (map questionId (questions qz)) \<Longrightarrow>
     calculateScore d (xs @ a # ys) qid = calculateScore d (xs @ ys) qid \<and>
     (\<exists>s. calculateScore d (xs @ a # ys) qid = Inr s)"
  using calculateScore_insert [of d qid qz xs ys a] spec_points_unmatched [of a "questions qz"]
  by simp

theorem unmatched_answer_ignored_witness:
  "quizzes example_db ''quiz1'' = Some example_quiz \<and>
   ''q9'' \<notin> set (map questionId (questions example_quiz)) \<and>
   calculateScore example_db
     [answer_o1, \<lparr>answer_questionId = ''q9'', selectedOptionId = ''o1''\<rparr>, answer_o2] ''quiz1'' =
   calculateScore example_db [answer_o1, answer_o2] ''quiz1'' \<and>
   calculateScore example_db [answer_o1, answer_o2] ''quiz1'' = Inr 1"
proof -
  have h: "quizzes example_db ''quiz1'' = Some example_quiz"
    by (simp add: example_db_def)
  have n: "answer_questionId \<lparr>answer_questionId = ''q9'', selectedOptionId = ''o1''\<rparr>
      \<notin> set (map questionId (questions example_quiz))"
    by (simp add: example_defs)
  have v: "calculateScore example_db [answer_o1, answer_o2] ''quiz1'' = Inr 1"
    by (simp add: calculateScore_def score_answer_def example_defs)
  from unmatched_answer_ignored [OF h n, of "[answer_o1]" "[answer_o2]"] h n v
  show ?thesis by simp
qed

text \<open>
  Claim C5. When the question that an answer's questionId resolves to (the question
  carrying that id; the first one, should the id occur twice) has no option flagged
  isCorrect, the answer contributes 0 whatever option it selects, and scoring returns a
  score rather than an error.
\<close>

theorem no_correct_option_scores_zero:
  "quizzes d qid = Some qz \<Longrightarrow>
   List.find (\<lambda>q'. questionId q' = answer_questionId a) (questions qz) = Some q \<Longrightarrow>
   list_all (\<lambda>opt. \<not> isCorrect opt) (options q) \<Longrightarrow>
     calculateScore d (xs @ a # ys) qid = calculateScore d (xs @ ys) qid \<and>
     (\<exists>s. calculateScore d (xs @ a # ys) qid = Inr s)"
  using calculateScore_insert [of d qid qz xs ys a]
  by (simp add: spec_points_found find_None_list_all)

theorem no_correct_option_scores_zero_witness:
  "quizzes example_db2 ''quiz2'' =
     Some (example_quiz\<lparr>questions := [example_question, two_correct_question, unscorable_question]\<rparr>) \<and>
   list_all (\<lambda>opt. \<not> isCorrect opt) (options unscorable_question) \<and>
   calculateScore example_db2
     [answer_o1, \<lparr>answer_questionId = ''q3'', selectedOptionId = ''o1''\<rparr>] ''quiz2'' =
   calculateScore example_db2 [answer_o1] ''quiz2'' \<and>
   calculateScore example_db2 [answer_o1] ''quiz2'' = Inr 1"
proof -
  let ?qz = "example_quiz\<lparr>questions := [example_question, two_correct_question, unscorable_question]\<rparr>"
  let ?a = "\<lparr>answer_questionId = ''q3'', selectedOptionId = ''o1''\<rparr>"
  have h: "quizzes example_db2 ''quiz2'' = Some ?qz"
    by (simp add: example_db2_def)
  have f: "List.find (\<lambda>q'. questionId q' = answer_questionId ?a) (questions ?qz) = Some unscorable_question"
    by (simp add: example_defs)
  have n: "list_all (\<lambda>opt. \<not> isCorrect opt) (options unscorable_question)"
    by (simp add: unscorable_question_def)
  have v: "calculateScore example_db2 [answer_o1] ''quiz2'' = Inr 1"
    by (simp add: calculateScore_def score_answer_def example_defs)
  from no_correct_option_scores_zero [OF h f n, of "[answer_o1]" "[]"] h n v
  show ?thesis by simp
qed

text \<open>
  Claim C10. When the question an answer resolves to has several options flagged
  isCorrect (option ids being unique within the question), the answer earns its point
  exactly when it selects the first flagged option; selecting a later flagged option
  contributes 0.
\<close>

theorem first_correct_option_only:
  assumes qz: "quizzes d qid = Some qz"
    and q: "List.find (\<lambda>q'. questionId q' = answer_questionId a) (questions qz) = Some q"
    and opts: "options q = pre @ c # post"
    and pre: "list_all (\<lambda>opt. \<not> isCorrect opt) pre"
    and c: "isCorrect c"
    and ids: "distinct (map option_id (options q))"
  shows "\<exists>s. calculateScore d (xs @ ys) qid = Inr s \<and>
           calculateScore d (xs @ a # ys) qid =
             Inr (s + (if selectedOptionId a = option_id c then 1 else 0)) \<and>
           (list_ex (\<lambda>c'. isCorrect c' \<and> selectedOptionId a = option_id c') post \<longrightarrow>
              calculateScore d (xs @ a # ys) qid = Inr s)"
proof -
  have pts: "spec_points (questions qz) a = (if selectedOptionId a = option_id c then 1 else 0)"
    using q opts pre c by (auto simp: spec_points_found find_first)
  have later: "selectedOptionId a \<noteq> option_id c"
    if "list_ex (\<lambda>c'. isCorrect c' \<and> selectedOptionId a = option_id c') post"
  proof -
    from that obtain c' where "c' \<in> set post" "selectedOptionId a = option_id c'"
      by (auto simp: list_ex_iff)
    moreover from ids opts have "option_id c \<notin> option_id ` set post"
      by simp
    ultimately show ?thesis by force
  qed
  from calculateScore_insert [OF qz, of xs ys a] pts later show ?thesis
    by auto
qed

theorem first_correct_option_only_witness:
  "quizzes example_db2 ''quiz2'' =
     Some (example_quiz\<lparr>questions := [example_question, two_correct_question, unscorable_question]\<rparr>) \<and>
   distinct (map option_id (options two_correct_question)) \<and>
   length (filter isCorrect (options two_correct_question)) = 2 \<and>
   calculateScore example_db2 [] ''quiz2'' = Inr 0 \<and>
   calculateScore example_db2 [\<lparr>answer_questionId = ''q2'', selectedOptionId = ''o3''\<rparr>] ''quiz2'' = Inr 0"
proof -
  let ?qz = "example_quiz\<lparr>questions := [example_question, two_correct_question, unscorable_question]\<rparr>"
  let ?a = "\<lparr>answer_questionId = ''q2'', selectedOptionId = ''o3''\<rparr>"
  let ?o1 = "\<lparr>option_id = ''o1'', option_text = ''4'', isCorrect = False\<rparr>"
  let ?o2 = "\<lparr>option_id = ''o2'', option_text = ''5'', isCorrect = True\<rparr>"
  let ?o3 = "\<lparr>option_id = ''o3'', option_text = ''7'', isCorrect = True\<rparr>"
  have h: "quizzes example_db2 ''quiz2'' = Some ?qz"
    by (simp add: example_db2_def)
  have f: "List.find (\<lambda>q'. questionId q' = answer_questionId ?a) (questions ?qz) = Some two_correct_question"
    by (simp add: example_defs)
  have o: "options two_correct_question = [?o1] @ ?o2 # [?o3]"
    by (simp add: two_correct_question_def)
  have p: "list_all (\<lambda>opt. \<not> isCorrect opt) [?o1]" and c: "isCorrect ?o2"
    by simp_all
  have i: "distinct (map option_id (options two_correct_question))"
    by (simp add: two_correct_question_def)
  have l: "list_ex (\<lambda>c'. isCorrect c' \<and> selectedOptionId ?a = option_id c') [?o3]"
    by simp
  have n: "length (filter isCorrect (options two_correct_question)) = 2"
    by (simp add: two_correct_question_def)
  have e: "calculateScore example_db2 [] ''quiz2'' = Inr 0"
    by (simp add: calculateScore_def example_db2_def)
  from first_correct_option_only [OF h f o p c i, of "[]" "[]"] l h i n e
  show ?thesis by simp
qed

section \<open>Properties of the leaderboard\<close>

lemmas leaderboard_defs = leaderboard_rows_def aggregate_doc_def has_property_def
  Object_prototype_keys_def add_quiz_def Object_entries_def is_array_index_def is_digit_def
  decimal_value_def to_leaderboard_user_def Array_sort_def by_totalScore_desc_def add_rank_def
  history_doc_def List.enumerate_eq_zip Let_def

subsection \<open>Sorting and ranking\<close>

lemma set_insert_sorted: "set (insert_sorted cmp x ys) = insert x (set ys)"
  by (induction ys) auto

lemma sorted_insert_sorted:
  "sorted_wrt (\<lambda>a b. totalScore b \<le> totalScore a) ys \<Longrightarrow>
   sorted_wrt (\<lambda>a b. totalScore b \<le> totalScore a) (insert_sorted by_totalScore_desc x ys)"
  by (induction ys) (auto simp: set_insert_sorted by_totalScore_desc_def)

lemma sorted_Array_sort:
  "sorted_wrt (\<lambda>a b. totalScore b \<le> totalScore a) (Array_sort by_totalScore_desc xs)"
  unfolding Array_sort_def by (induction xs) (simp_all add: sorted_insert_sorted)

lemma map_totalScore_add_rank:
  "map totalScore (map add_rank (List.enumerate n xs)) = map totalScore xs"
  by (induction xs arbitrary: n) (simp_all add: add_rank_def)

lemma map_rank_add_rank:
  "map rank (map add_rank (List.enumerate n xs)) = map (\<lambda>i. int i + 1) [n..<n + length xs]"
  by (induction xs arbitrary: n) (simp_all add: add_rank_def upt_rec)

lemma sorted_rows:
  "sorted_wrt (\<lambda>a b. totalScore b \<le> totalScore a) (leaderboard_rows docs)"
proof -
  have "sorted_wrt (\<lambda>x y. y \<le> x) (map totalScore (leaderboard_rows docs))"
    unfolding leaderboard_rows_def Let_def map_totalScore_add_rank
    using sorted_Array_sort by (simp add: sorted_wrt_map)
  then show ?thesis by (simp add: sorted_wrt_map)
qed

lemma rank_rows:
  "map rank (leaderboard_rows docs) = map (\<lambda>i. int i + 1) [0..<length (leaderboard_rows docs)]"
  unfolding leaderboard_rows_def Let_def
  using map_rank_add_rank [of 0] by simp

lemma two_user_scenario:
  "score e1 + score e2 = 10 \<Longrightarrow> score e3 = 15 \<Longrightarrow>
   docs = [(''A'', history_doc [e1, e2]), (''B'', history_doc [e3])] \<or>
   docs = [(''B'', history_doc [e3]), (''A'', history_doc [e1, e2])] \<Longrightarrow>
   leaderboard_rows docs =
     [\<lparr>totalScore = 15, quizzesTaken = 1, userId = ''B'', rank = 1\<rparr>,
      \<lparr>totalScore = 10, quizzesTaken = 2, userId = ''A'', rank = 2\<rparr>]"
  by (auto simp: leaderboard_rows_def aggregate_doc_def has_property_def Object_prototype_keys_def
      add_quiz_def Object_entries_def is_array_index_def is_digit_def decimal_value_def
      to_leaderboard_user_def Array_sort_def by_totalScore_desc_def add_rank_def history_doc_def
      List.enumerate_eq_zip Let_def)

lemma nth_rank:
  assumes "i < length (leaderboard_rows docs)"
  shows "rank (leaderboard_rows docs ! i) = int i + 1"
proof -
  have "rank (leaderboard_rows docs ! i) = map rank (leaderboard_rows docs) ! i"
    using assms by simp
  also have "\<dots> = map (\<lambda>i. int i + 1) [0..<length (leaderboard_rows docs)] ! i"
    by (simp only: rank_rows)
  also have "\<dots> = int i + 1"
    using assms by simp
  finally show ?thesis .
qed

subsection \<open>Aggregation\<close>

lemma aggregate_no_history:
  "list_all (\<lambda>p. \<not> has_history (snd p)) docs \<Longrightarrow> foldl aggregate_doc acc docs = acc"
  by (induction docs arbitrary: acc)
     (auto simp: aggregate_doc_def has_history_def split: option.splits)

lemma rows_no_history:
  "list_all (\<lambda>p. \<not> has_history (snd p)) docs \<Longrightarrow> leaderboard_rows docs = []"
  by (simp add: leaderboard_rows_def aggregate_no_history Object_entries_def Array_sort_def)

lemma add_quiz_absent: "uid \<notin> set (map fst acc) \<Longrightarrow> add_quiz uid acc qz = acc"
  unfolding add_quiz_def by (rule map_idI) force

lemma foldl_add_quiz_absent: "uid \<notin> set (map fst acc) \<Longrightarrow> foldl (add_quiz uid) acc qt = acc"
  by (induction qt) (simp_all add: add_quiz_absent)

lemma add_quiz_append:
  "add_quiz uid (acc @ [(uid, s)]) qz =
     add_quiz uid acc qz @
       [(uid, s\<lparr>totalScore := totalScore s + score qz, quizzesTaken := quizzesTaken s + 1\<rparr>)]"
  by (simp add: add_quiz_def)

lemma foldl_add_quiz_own:
  "uid \<notin> set (map fst acc) \<Longrightarrow>
   foldl (add_quiz uid) (acc @ [(uid, s)]) qt =
     acc @ [(uid, \<lparr>totalScore = totalScore s + sum_list (map score qt),
                   quizzesTaken = quizzesTaken s + int (length qt)\<rparr>)]"
proof (induction qt arbitrary: s)
  case Nil
  show ?case by simp
next
  case (Cons qz qt)
  then show ?case
    by (simp add: add_quiz_append add_quiz_absent add.assoc)
qed

lemma aggregate_doc_fresh:
  "fst doc \<notin> set (map fst acc) \<Longrightarrow>
   aggregate_doc acc doc =
     acc @ map (\<lambda>u. (userId u, \<lparr>totalScore = totalScore u, quizzesTaken = quizzesTaken u\<rparr>))
             (expected_user doc)"
  by (auto simp: aggregate_doc_def expected_user_def has_property_def foldl_add_quiz_own
        foldl_add_quiz_absent split: option.splits)

lemma fst_expected_user: "u \<in> set (expected_user doc) \<Longrightarrow> userId u = fst doc"
  by (auto simp: expected_user_def split: option.splits if_splits)

lemma foldl_aggregate_doc:
  "distinct (map fst docs) \<Longrightarrow> set (map fst acc) \<inter> set (map fst docs) = {} \<Longrightarrow>
   foldl aggregate_doc acc docs =
     acc @ map (\<lambda>u. (userId u, \<lparr>totalScore = totalScore u, quizzesTaken = quizzesTaken u\<rparr>))
             (concat (map expected_user docs))"
proof (induction docs arbitrary: acc)
  case Nil
  show ?case by simp
next
  case (Cons doc docs)
  let ?new = "map (\<lambda>u. (userId u, \<lparr>totalScore = totalScore u, quizzesTaken = quizzesTaken u\<rparr>))
                (expected_user doc)"
  from Cons.prems have fresh: "fst doc \<notin> set (map fst acc)" by auto
  have keys: "set (map fst (acc @ ?new)) \<subseteq> set (map fst acc) \<union> {fst doc}"
    by (auto dest: fst_expected_user)
  have notin: "fst doc \<notin> set (map fst docs)" and dist: "distinct (map fst docs)"
    using Cons.prems by simp_all
  have disj: "set (map fst acc) \<inter> set (map fst docs) = {}"
    using Cons.prems(2) by auto
  have "(set (map fst acc) \<union> {fst doc}) \<inter> set (map fst docs) = {}"
    using notin disj by blast
  with keys have "set (map fst (acc @ ?new)) \<inter> set (map fst docs) = {}"
    by blast
  from Cons.IH [OF dist this] fresh show ?case
    by (simp add: aggregate_doc_fresh)
qed

lemma to_leaderboard_user_inverse:
  "to_leaderboard_user (userId u, \<lparr>totalScore = totalScore u, quizzesTaken = quizzesTaken u\<rparr>) = u"
  by (simp add: to_leaderboard_user_def)

lemma mset_Object_entries: "mset (Object_entries obj) = mset obj"
  by (simp add: Object_entries_def)

lemma mset_insert_sorted: "mset (insert_sorted cmp x ys) = add_mset x (mset ys)"
  by (induction ys) simp_all

lemma mset_Array_sort: "mset (Array_sort cmp xs) = mset xs"
  unfolding Array_sort_def by (induction xs) (simp_all add: mset_insert_sorted)

lemma without_rank_add_rank:
  "map without_rank (map add_rank (List.enumerate n xs)) = xs"
  by (induction xs arbitrary: n) (simp_all add: without_rank_def add_rank_def)

text \<open>
  With document ids unique in the scan, the rows without their ranks are a rearrangement
  of the entries that the documents stand for: one row per user with a non-empty history
  whose id is not a property name of \<^verbatim>\<open>Object.prototype\<close>, carrying the sum of the
  scores and the number of entries of that history.
\<close>

lemma leaderboard_rows_content:
  assumes "distinct (map fst docs)"
  shows "mset (map without_rank (leaderboard_rows docs)) = mset (concat (map expected_user docs))"
proof -
  let ?exp = "concat (map expected_user docs)"
  have agg: "foldl aggregate_doc [] docs =
      map (\<lambda>u. (userId u, \<lparr>totalScore = totalScore u, quizzesTaken = quizzesTaken u\<rparr>)) ?exp"
    using foldl_aggregate_doc [OF assms, of "[]"] by simp
  have "map without_rank (leaderboard_rows docs) =
      Array_sort by_totalScore_desc (map to_leaderboard_user (Object_entries (foldl aggregate_doc [] docs)))"
    unfolding leaderboard_rows_def Let_def without_rank_add_rank by simp
  then have "mset (map without_rank (leaderboard_rows docs)) =
      image_mset to_leaderboard_user (mset (foldl aggregate_doc [] docs))"
    by (simp add: mset_Array_sort mset_Object_entries)
  also have "\<dots> = mset ?exp"
    unfolding agg by (simp add: multiset.map_comp comp_def to_leaderboard_user_inverse)
  finally show ?thesis .
qed

subsection \<open>The claims about the leaderboard\<close>

text \<open>
  Claim C6. A row should be produced exactly for the users whose history is non-empty,
  with the sum and the count of that history. The aggregation keeps its entries in a
  plain object and tests \<^verbatim>\<open>!userScores[userId]\<close>: for a user whose document id is
  \<open>constructor\<close> the test reads the inherited \<^verbatim>\<open>Object\<close> function, no entry is created,
  and the user gets no row although the history is non-empty.
\<close>

theorem leaderboard_inherited_name_skipped:
  "list_all (\<lambda>p. has_history (snd p)) (users constructor_db) \<and>
   getQuizLeaderboard constructor_db =
     (\<lparr>status = 200, body = Leaderboard []\<rparr>, constructor_db)"
  by (simp add: getQuizLeaderboard_def constructor_db_def has_history_def leaderboard_defs)

text \<open>
  Claim C7. The rows that the leaderboard handler returns are in non-increasing order of
  totalScore, and the row at position \<open>i\<close> (from 0) has rank \<open>i + 1\<close>. With user \<open>A\<close>
  holding two entries that sum to 10 and user \<open>B\<close> one entry of 15, in either scan
  order, \<open>B\<close> has rank 1 and \<open>A\<close> rank 2.
\<close>

theorem leaderboard_sorted_ranked:
  assumes "body (fst (getQuizLeaderboard d)) = Leaderboard rows"
  shows "sorted_wrt (\<lambda>a b. totalScore b \<le> totalScore a) rows \<and>
     (\<forall>i<length rows. rank (rows ! i) = int i + 1) \<and>
     (score e1 + score e2 = 10 \<and> score e3 = 15 \<and>
      (users d = [(''A'', history_doc [e1, e2]), (''B'', history_doc [e3])] \<or>
       users d = [(''B'', history_doc [e3]), (''A'', history_doc [e1, e2])]) \<longrightarrow>
        rows = [\<lparr>totalScore = 15, quizzesTaken = 1, userId = ''B'', rank = 1\<rparr>,
                \<lparr>totalScore = 10, quizzesTaken = 2, userId = ''A'', rank = 2\<rparr>])"
proof -
  from assms have rows: "rows = leaderboard_rows (users d)"
    by (simp add: getQuizLeaderboard_def split: if_splits)
  show ?thesis
    unfolding rows using sorted_rows [of "users d"] nth_rank [of _ "users d"] two_user_scenario [of e1 e2 e3 "users d"]
    by blast
qed

theorem leaderboard_sorted_ranked_witness:
  "body (fst (getQuizLeaderboard leaderboard_db)) =
     Leaderboard [\<lparr>totalScore = 15, quizzesTaken = 1, userId = ''B'', rank = 1\<rparr>,
                  \<lparr>totalScore = 10, quizzesTaken = 2, userId = ''A'', rank = 2\<rparr>] \<and>
   sorted_wrt (\<lambda>a b. totalScore b \<le> totalScore a)
     [\<lparr>totalScore = 15, quizzesTaken = 1, userId = ''B'', rank = 1\<rparr>,
      \<lparr>totalScore = 10, quizzesTaken = 2, userId = ''A'', rank = (2::int)\<rparr>]"
proof -
  have h: "body (fst (getQuizLeaderboard leaderboard_db)) =
     Leaderboard [\<lparr>totalScore = 15, quizzesTaken = 1, userId = ''B'', rank = 1\<rparr>,
                  \<lparr>totalScore = 10, quizzesTaken = 2, userId = ''A'', rank = 2\<rparr>]"
    by (simp add: getQuizLeaderboard_def leaderboard_db_def leaderboard_defs)
  from leaderboard_sorted_ranked [OF h] h show ?thesis
    by simp
qed

text \<open>
  Claim C8, as stated, fails: a user document without history is a user all the same, so
  the handler answers 200 with an empty array, not 404.
\<close>

theorem leaderboard_no_history_counterexample:
  "list_all (\<lambda>p. \<not> has_history (snd p)) (users example_db) \<and>
   fst (getQuizLeaderboard example_db) = \<lparr>status = 200, body = Leaderboard []\<rparr> \<and>
   status (fst (getQuizLeaderboard example_db)) \<noteq> 404"
  by (simp add: getQuizLeaderboard_def example_db_def has_history_def leaderboard_defs)

text \<open>
  Claim C8, amended. When no user has any history the leaderboard has no rows and nothing
  fails; the handler answers 404 with the message \<open>No users found\<close> when the users
  collection holds no document at all, and 200 with the empty sequence when it holds
  documents none of which has a history.
\<close>

theorem leaderboard_no_history:
  "list_all (\<lambda>p. \<not> has_history (snd p)) (users d) \<Longrightarrow>
     leaderboard_rows (users d) = [] \<and>
     getQuizLeaderboard d =
       (if users d = [] then \<lparr>status = 404, body = Message ''No users found''\<rparr>
        else \<lparr>status = 200, body = Leaderboard []\<rparr>, d)"
  by (simp add: getQuizLeaderboard_def rows_no_history)

theorem leaderboard_no_history_witness:
  "list_all (\<lambda>p. \<not> has_history (snd p)) (users empty_db) \<and>
   getQuizLeaderboard empty_db = (\<lparr>status = 404, body = Message ''No users found''\<rparr>, empty_db) \<and>
   list_all (\<lambda>p. \<not> has_history (snd p)) (users example_db) \<and>
   getQuizLeaderboard example_db = (\<lparr>status = 200, body = Leaderboard []\<rparr>, example_db)"
proof -
  have h1: "list_all (\<lambda>p. \<not> has_history (snd p)) (users empty_db)"
    by (simp add: empty_db_def)
  have h2: "list_all (\<lambda>p. \<not> has_history (snd p)) (users example_db)"
    by (simp add: example_db_def has_history_def)
  have "users empty_db = []" and "users example_db \<noteq> []"
    by (simp_all add: empty_db_def example_db_def)
  with leaderboard_no_history [OF h1] leaderboard_no_history [OF h2] h1 h2
  show ?thesis by simp
qed

text \<open>
  Claim C9. The leaderboard handler leaves the store as it found it, so evaluating it
  again on the resulting store gives the identical response; and the response is a
  function of the scan of the users collection alone.
\<close>

theorem leaderboard_idempotent:
  "snd (getQuizLeaderboard d) = d \<and>
   getQuizLeaderboard (snd (getQuizLeaderboard d)) = getQuizLeaderboard d \<and>
   (users d' = users d \<longrightarrow> fst (getQuizLeaderboard d') = fst (getQuizLeaderboard d))"
  by (simp add: getQuizLeaderboard_def)

theorem leaderboard_idempotent_witness:
  "users (example_db\<lparr>quizzes := Map.empty\<rparr>) = users example_db \<and>
   getQuizLeaderboard (snd (getQuizLeaderboard leaderboard_db)) = getQuizLeaderboard leaderboard_db \<and>
   fst (getQuizLeaderboard (example_db\<lparr>quizzes := Map.empty\<rparr>)) = fst (getQuizLeaderboard example_db)"
  using leaderboard_idempotent [of leaderboard_db] leaderboard_idempotent [of example_db "example_db\<lparr>quizzes := Map.empty\<rparr>"]
  by simp

end
